theory Spec2Isabelle
  imports Complex_Main "HOL-Library.Char_ord" "HOL-Library.List_Lexorder"
    "HOL-Library.Product_Lexorder" "HOL-Library.Multiset" "HOL-Library.Log_Nat"
begin

section \<open>Python floats (binary64)\<close>

text \<open>
  Both source files compute with Python floats, and the \<^verbatim>\<open>REAL\<close> columns of the
  store hold the same binary64 numbers. A finite float is kept as its exact rational value,
  and each operation rounds the exact result to binary64.
\<close>

text \<open>The integer nearest to \<open>x\<close>; of two equally near, the even one.\<close>

definition round_half_even :: "rat \<Rightarrow> int" where
  "round_half_even x =
     (let f = \<lfloor>x\<rfloor>; r = x - of_int f
      in if r < 1 / 2 then f else if 1 / 2 < r then f + 1 else if even f then f else f + 1)"

text \<open>
  For \<open>x > 0\<close>, the exponent \<open>e\<close> with \<open>2 powi e \<le> x < 2 powi (e + 1)\<close>: the bit
  lengths of numerator and denominator give it up to one, and a comparison settles it.
\<close>

definition exponent_of :: "rat \<Rightarrow> int" where
  "exponent_of x =
     (case quotient_of x of (a, b) \<Rightarrow>
        (let d = bitlen a - bitlen b in if 2 powi d \<le> x then d else d - 1))"

text \<open>
  Rounding to binary64, to nearest with ties to even: 53 significant bits for normal
  numbers, multiples of \<open>2 powi (- 1074)\<close> below \<open>2 powi (- 1022)\<close>. The result is
  \<open>None\<close> when the rounded value is beyond the largest finite float, where Python has
  \<^verbatim>\<open>inf\<close>.
\<close>

definition to_binary64 :: "rat \<Rightarrow> rat option" where
  "to_binary64 x =
     (if x = 0 then Some 0
      else
        (let e = max (exponent_of \<bar>x\<bar>) (- 1022);
             ulp = 2 powi (e - 52);
             y = of_int (round_half_even (\<bar>x\<bar> / ulp)) * ulp
         in if 2 powi 1024 \<le> y then None else Some (sgn x * y)))"

text \<open>
  Python's \<^verbatim>\<open>x / y\<close> and \<^verbatim>\<open>x * y\<close> on floats: the exact quotient or
  product, rounded. \<open>None\<close> stands for every outcome that is not a finite float
  (\<^verbatim>\<open>ZeroDivisionError\<close>, \<^verbatim>\<open>inf\<close>).
\<close>

definition float_truediv :: "rat \<Rightarrow> rat \<Rightarrow> rat option" where
  "float_truediv x y = (if y = 0 then None else to_binary64 (x / y))"

definition float_mul :: "rat \<Rightarrow> rat \<Rightarrow> rat option" where
  "float_mul x y = to_binary64 (x * y)"

text \<open>
  A C \<^verbatim>\<open>double\<close> as SQLite's \<^verbatim>\<open>SUM\<close> accumulates it: a finite number, an
  infinity (\<open>FlInf True\<close> is the negative one) or not-a-number.
\<close>

datatype fl = FlNum rat | FlInf bool | FlNaN

definition fl_round :: "rat \<Rightarrow> fl" where
  "fl_round x = (case to_binary64 x of Some y \<Rightarrow> FlNum y | None \<Rightarrow> FlInf (x < 0))"

fun fl_add :: "fl \<Rightarrow> fl \<Rightarrow> fl" where
  "fl_add (FlNum a) (FlNum b) = fl_round (a + b)"
| "fl_add (FlNum a) (FlInf n) = FlInf n"
| "fl_add (FlInf n) (FlNum b) = FlInf n"
| "fl_add (FlInf n) (FlInf m) = (if n = m then FlInf n else FlNaN)"
| "fl_add FlNaN y = FlNaN"
| "fl_add x FlNaN = FlNaN"

fun fl_neg :: "fl \<Rightarrow> fl" where
  "fl_neg (FlNum a) = FlNum (- a)"
| "fl_neg (FlInf n) = FlInf (\<not> n)"
| "fl_neg FlNaN = FlNaN"

definition fl_sub :: "fl \<Rightarrow> fl \<Rightarrow> fl" where
  "fl_sub x y = fl_add x (fl_neg y)"

text \<open>\<^verbatim>\<open>fabs(s) > fabs(r)\<close>; a comparison with not-a-number is false.\<close>

fun fl_abs_gt :: "fl \<Rightarrow> fl \<Rightarrow> bool" where
  "fl_abs_gt (FlNum a) (FlNum b) = (\<bar>b\<bar> < \<bar>a\<bar>)"
| "fl_abs_gt (FlInf n) (FlNum b) = True"
| "fl_abs_gt x y = False"

section \<open>The meal database (src/database.py)\<close>

text \<open>
  The storage component keeps two SQLite tables and runs one SQL statement per method.
  The embedding keeps each table as the list of its rows in rowid order and gives every
  method of \<^verbatim>\<open>MealDatabase\<close> as a function on the database value.

  \<^item> \<^verbatim>\<open>TEXT\<close> values are byte strings, compared bytewise (SQLite's default
    \<^verbatim>\<open>BINARY\<close> collation): the lexicographic order on \<open>string\<close>.
  \<^item> \<^verbatim>\<open>REAL\<close> values are finite binary64 numbers, kept as their exact rational
    values. A Python \<^verbatim>\<open>int\<close> bound to such a column is converted to the nearest
    float; \<^verbatim>\<open>SUM\<close> adds with the rounding of binary64.
  \<^item> A text argument is a \<^verbatim>\<open>str\<close> and a numeric argument an \<^verbatim>\<open>int\<close> or
    a finite \<^verbatim>\<open>float\<close>, as the annotations of the methods say (an \<^verbatim>\<open>int\<close>
    is acceptable where \<^verbatim>\<open>float\<close> is annotated, and the defaults are the
    \<^verbatim>\<open>int\<close> 0). No argument is \<^verbatim>\<open>None\<close>, so no stored column is
    \<^verbatim>\<open>NULL\<close>.
  \<^item> A statement on a table that does not exist fails with
    \<^verbatim>\<open>sqlite3.OperationalError\<close>, and an \<^verbatim>\<open>int\<close> argument outside the
    signed 64-bit range fails with \<^verbatim>\<open>OverflowError\<close> when it is bound.
\<close>

subsection \<open>Values, rows and tables\<close>

text \<open>
  What the \<^verbatim>\<open>sqlite3\<close> module hands to Python for one SQL value; \<open>PyInf True\<close>
  is the float \<^verbatim>\<open>-inf\<close>.
\<close>

datatype py_value = PyNone | PyInt int | PyFloat rat | PyInf bool | PyStr string

type_synonym py_dict = "(string \<times> py_value) list"

text \<open>A numeric argument of a method: a Python \<^verbatim>\<open>int\<close> or a finite \<^verbatim>\<open>float\<close>.\<close>

datatype py_number = NumInt int | NumFloat rat

datatype db_error = OperationalError | OverflowError

record food_master_row =
  fm_id :: int
  fm_name :: string
  fm_calories :: rat
  fm_protein :: rat
  fm_fat :: rat
  fm_carbs :: rat
  fm_fiber :: rat

record meal_records_row =
  mr_id :: int
  mr_date :: string
  mr_meal_type :: string
  mr_food_name :: string
  mr_amount :: rat
  mr_calories :: rat
  mr_protein :: rat
  mr_fat :: rat
  mr_carbs :: rat
  mr_fiber :: rat
  mr_created_at :: string

text \<open>A column of a \<^verbatim>\<open>CREATE TABLE\<close> statement: its name and its declaration.\<close>

datatype column = Column string string



text \<open>
  A table with an \<^verbatim>\<open>INTEGER PRIMARY KEY AUTOINCREMENT\<close> column: its rows, and
  the largest rowid it ever held (its entry in \<^verbatim>\<open>sqlite_sequence\<close>).
\<close>

record 'r table =
  rows :: "'r list"
  seq :: int

text \<open>
  What the database file holds under a table name: a table with the columns that
  \<^verbatim>\<open>init_db\<close> declares, or a table with other columns, made by another program or
  version. Of the latter only the columns are kept. The statements of the methods name the
  declared columns; on a table with other columns they are given as failing with
  \<^verbatim>\<open>OperationalError\<close>, which is SQLite's answer when a named column is missing.
\<close>

datatype 'r stored = Declared "'r table" | Foreign "column list"


record database =
  food_master :: "food_master_row stored option"
  meal_records :: "meal_records_row stored option"

subsection \<open>The SQL the methods use\<close>

definition empty_table :: "'r table" where
  "empty_table = \<lparr>rows = [], seq = 0\<rparr>"

text \<open>
  \<^verbatim>\<open>CREATE TABLE IF NOT EXISTS\<close>: a table of that name is left as it is, whatever
  its columns.
\<close>

definition create_table_if_not_exists :: "'r stored option \<Rightarrow> 'r stored option" where
  "create_table_if_not_exists t =
     (case t of None \<Rightarrow> Some (Declared empty_table) | Some old \<Rightarrow> Some old)"

text \<open>The table a statement of the methods works on.\<close>

definition open_table :: "'r stored option \<Rightarrow> db_error + 'r table" where
  "open_table t =
     (case t of
        None \<Rightarrow> Inl OperationalError
      | Some (Foreign cs) \<Rightarrow> Inl OperationalError
      | Some (Declared tab) \<Rightarrow> Inr tab)"

text \<open>
  Binding arguments: the \<^verbatim>\<open>sqlite3\<close> module passes an \<^verbatim>\<open>int\<close> as a
  64-bit integer, and a \<^verbatim>\<open>REAL\<close> column converts it to the nearest float. A
  \<^verbatim>\<open>float\<close> is bound as it is; \<open>NumFloat x\<close> stands for a finite float, so
  \<open>x\<close> is a binary64 number and rounding leaves it alone. (For any other \<open>x\<close>,
  which no Python float has as its value, the rounding keeps the tables within binary64.)
\<close>

definition int64 :: "int \<Rightarrow> bool" where
  "int64 i \<longleftrightarrow> - (2 ^ 63) \<le> i \<and> i < 2 ^ 63"

definition bind_real :: "py_number \<Rightarrow> db_error + rat" where
  "bind_real v =
     (case v of
        NumInt i \<Rightarrow>
          (if int64 i
           then (case to_binary64 (of_int i) of Some x \<Rightarrow> Inr x | None \<Rightarrow> Inl OverflowError)
           else Inl OverflowError)
      | NumFloat x \<Rightarrow>
          (case to_binary64 x of Some y \<Rightarrow> Inr y | None \<Rightarrow> Inl OverflowError))"

text \<open>
  The number an argument stands for. It is representable when a \<^verbatim>\<open>REAL\<close> column
  holds it unchanged: every finite float is, and every \<^verbatim>\<open>int\<close> that is a float.
\<close>

fun number_value :: "py_number \<Rightarrow> rat" where
  "number_value (NumInt i) = of_int i"
| "number_value (NumFloat x) = x"

definition representable :: "py_number \<Rightarrow> bool" where
  "representable v \<longleftrightarrow> bind_real v = Inr (number_value v)"

text \<open>Sequencing of steps that may raise.\<close>

definition and_then :: "db_error + 'a \<Rightarrow> ('a \<Rightarrow> db_error + 'b) \<Rightarrow> db_error + 'b" where
  "and_then r f = (case r of Inl err \<Rightarrow> Inl err | Inr x \<Rightarrow> f x)"

text \<open>
  \<^verbatim>\<open>AUTOINCREMENT\<close>: the new rowid is one more than the largest rowid the table
  ever held, and the insert is refused (\<^verbatim>\<open>database or disk is full\<close>) when that was
  the largest 64-bit integer.
\<close>

definition next_rowid :: "('r \<Rightarrow> int) \<Rightarrow> 'r table \<Rightarrow> int" where
  "next_rowid rid t = fold max (map rid (rows t)) (seq t) + 1"

definition insert_row :: "('r \<Rightarrow> int) \<Rightarrow> (int \<Rightarrow> 'r) \<Rightarrow> 'r table \<Rightarrow> db_error + 'r table" where
  "insert_row rid mk t =
     (let i = next_rowid rid t
      in if int64 i then Inr \<lparr>rows = rows t @ [mk i], seq = i\<rparr> else Inl OperationalError)"

definition delete_where :: "('r \<Rightarrow> bool) \<Rightarrow> 'r table \<Rightarrow> 'r table" where
  "delete_where p t = t\<lparr>rows := filter (\<lambda>r. \<not> p r) (rows t)\<rparr>"

definition update_where :: "('r \<Rightarrow> bool) \<Rightarrow> ('r \<Rightarrow> 'r) \<Rightarrow> 'r table \<Rightarrow> 'r table" where
  "update_where p f t = t\<lparr>rows := map (\<lambda>r. if p r then f r else r) (rows t)\<rparr>"

text \<open>\<^verbatim>\<open>x BETWEEN lo AND hi\<close> is \<^verbatim>\<open>x >= lo AND x <= hi\<close>.\<close>

definition between :: "string \<Rightarrow> string \<Rightarrow> string \<Rightarrow> bool" where
  "between x lo hi \<longleftrightarrow> lo \<le> x \<and> x \<le> hi"

text \<open>
  \<^verbatim>\<open>SUM\<close> over \<^verbatim>\<open>REAL\<close> values is code of the SQLite library, not of this
  repository, and it changed with release 3.44: before, each value is added to a running
  double; since, the rounding errors are collected in a second double
  (Kahan-Babuska-Neumaier) and added at the end, unless that error term is infinite or
  not-a-number. Both are given here, and the two summary methods take the one in use as
  an argument. The values are added in rowid order, starting from 0.0.
\<close>

datatype sum_algorithm = Plain | Compensated

definition kbn_step :: "fl \<times> fl \<Rightarrow> rat \<Rightarrow> fl \<times> fl" where
  "kbn_step acc v =
     (case acc of (s, err) \<Rightarrow>
        (let r = FlNum v; t = fl_add s r
         in (t, fl_add err
                  (if fl_abs_gt s r then fl_add (fl_sub s t) r else fl_add (fl_sub r t) s))))"

definition kbn_final :: "fl \<times> fl \<Rightarrow> fl" where
  "kbn_final acc =
     (case acc of (s, err) \<Rightarrow> (case err of FlNum e \<Rightarrow> fl_add s (FlNum e) | _ \<Rightarrow> s))"

definition real_total :: "sum_algorithm \<Rightarrow> rat list \<Rightarrow> fl" where
  "real_total alg xs =
     (case alg of
        Plain \<Rightarrow> fold (\<lambda>v s. fl_add s (FlNum v)) xs (FlNum 0)
      | Compensated \<Rightarrow> kbn_final (fold (\<lambda>v acc. kbn_step acc v) xs (FlNum 0, FlNum 0)))"

text \<open>A double as Python receives it; SQLite hands out not-a-number as \<^verbatim>\<open>NULL\<close>.\<close>

fun py_of_fl :: "fl \<Rightarrow> py_value" where
  "py_of_fl (FlNum x) = PyFloat x"
| "py_of_fl (FlInf n) = PyInf n"
| "py_of_fl FlNaN = PyNone"

text \<open>\<^verbatim>\<open>SUM\<close> is \<^verbatim>\<open>NULL\<close> over no rows.\<close>

definition sql_sum :: "sum_algorithm \<Rightarrow> rat list \<Rightarrow> py_value" where
  "sql_sum alg xs = (if xs = [] then PyNone else py_of_fl (real_total alg xs))"

text \<open>Python's \<^verbatim>\<open>a or b\<close>, on the values above.\<close>

fun truthy :: "py_value \<Rightarrow> bool" where
  "truthy PyNone = False"
| "truthy (PyInt i) = (i \<noteq> 0)"
| "truthy (PyFloat x) = (x \<noteq> 0)"
| "truthy (PyInf n) = True"
| "truthy (PyStr s) = (s \<noteq> [])"

definition py_or :: "py_value \<Rightarrow> py_value \<Rightarrow> py_value" where
  "py_or a b = (if truthy a then a else b)"



subsection \<open>The methods of MealDatabase\<close>

definition init_db :: "database \<Rightarrow> database" where
  "init_db db =
     \<lparr>food_master = create_table_if_not_exists (food_master db),
      meal_records = create_table_if_not_exists (meal_records db)\<rparr>"

definition add_food_to_master ::
  "database \<Rightarrow> string \<Rightarrow> py_number \<Rightarrow> py_number \<Rightarrow> py_number \<Rightarrow> py_number \<Rightarrow> py_number
     \<Rightarrow> db_error + database" where
  "add_food_to_master db name calories protein fat carbs fiber =
     and_then (open_table (food_master db)) (\<lambda>t.
     and_then (bind_real calories) (\<lambda>v_calories.
     and_then (bind_real protein) (\<lambda>v_protein.
     and_then (bind_real fat) (\<lambda>v_fat.
     and_then (bind_real carbs) (\<lambda>v_carbs.
     and_then (bind_real fiber) (\<lambda>v_fiber.
     and_then (insert_row fm_id
         (\<lambda>i. \<lparr>fm_id = i, fm_name = name, fm_calories = v_calories, fm_protein = v_protein,
               fm_fat = v_fat, fm_carbs = v_carbs, fm_fiber = v_fiber\<rparr>) t) (\<lambda>t'.
     Inr (db\<lparr>food_master := Some (Declared t')\<rparr>))))))))"

definition food_dict :: "food_master_row \<Rightarrow> py_dict" where
  "food_dict row =
     [(''id'', PyInt (fm_id row)),
      (''name'', PyStr (fm_name row)),
      (''calories'', PyFloat (fm_calories row)),
      (''protein'', PyFloat (fm_protein row)),
      (''fat'', PyFloat (fm_fat row)),
      (''carbs'', PyFloat (fm_carbs row)),
      (''fiber'', PyFloat (fm_fiber row))]"

definition get_all_foods :: "database \<Rightarrow> db_error + py_dict list" where
  "get_all_foods db =
     and_then (open_table (food_master db)) (\<lambda>t.
     Inr (map food_dict (sort_key fm_name (rows t))))"

text \<open>
  \<^verbatim>\<open>created_at\<close> is not in the column list of the \<^verbatim>\<open>INSERT\<close>, so the store
  fills in \<^verbatim>\<open>CURRENT_TIMESTAMP\<close>: the clock reading \<open>now\<close> at the time of the call.
\<close>

definition add_meal_record ::
  "string \<Rightarrow> database \<Rightarrow> string \<Rightarrow> string \<Rightarrow> string \<Rightarrow> py_number \<Rightarrow> py_number \<Rightarrow> py_number
     \<Rightarrow> py_number \<Rightarrow> py_number \<Rightarrow> py_number \<Rightarrow> db_error + database" where
  "add_meal_record now db date meal_type food_name amount calories protein fat carbs fiber =
     and_then (open_table (meal_records db)) (\<lambda>t.
     and_then (bind_real amount) (\<lambda>v_amount.
     and_then (bind_real calories) (\<lambda>v_calories.
     and_then (bind_real protein) (\<lambda>v_protein.
     and_then (bind_real fat) (\<lambda>v_fat.
     and_then (bind_real carbs) (\<lambda>v_carbs.
     and_then (bind_real fiber) (\<lambda>v_fiber.
     and_then (insert_row mr_id
         (\<lambda>i. \<lparr>mr_id = i, mr_date = date, mr_meal_type = meal_type,
               mr_food_name = food_name, mr_amount = v_amount, mr_calories = v_calories,
               mr_protein = v_protein, mr_fat = v_fat, mr_carbs = v_carbs,
               mr_fiber = v_fiber, mr_created_at = now\<rparr>) t) (\<lambda>t'.
     Inr (db\<lparr>meal_records := Some (Declared t')\<rparr>)))))))))"

definition get_meals_by_date :: "database \<Rightarrow> string \<Rightarrow> db_error + meal_records_row list" where
  "get_meals_by_date db date =
     and_then (open_table (meal_records db)) (\<lambda>t.
     Inr (sort_key mr_created_at (filter (\<lambda>r. mr_date r = date) (rows t))))"

definition get_meals_by_date_range ::
  "database \<Rightarrow> string \<Rightarrow> string \<Rightarrow> db_error + meal_records_row list" where
  "get_meals_by_date_range db start_date end_date =
     and_then (open_table (meal_records db)) (\<lambda>t.
     Inr (sort_key (\<lambda>r. (mr_date r, mr_created_at r))
            (filter (\<lambda>r. between (mr_date r) start_date end_date) (rows t))))"

definition delete_meal_record :: "database \<Rightarrow> int \<Rightarrow> db_error + database" where
  "delete_meal_record db record_id =
     and_then (open_table (meal_records db)) (\<lambda>t.
     if int64 record_id
     then Inr (db\<lparr>meal_records := Some (Declared (delete_where (\<lambda>r. mr_id r = record_id) t))\<rparr>)
     else Inl OverflowError)"

definition update_meal_record ::
  "database \<Rightarrow> int \<Rightarrow> string \<Rightarrow> string \<Rightarrow> string \<Rightarrow> py_number \<Rightarrow> py_number \<Rightarrow> py_number
     \<Rightarrow> py_number \<Rightarrow> py_number \<Rightarrow> py_number \<Rightarrow> db_error + database" where
  "update_meal_record db record_id date meal_type food_name amount calories protein fat carbs fiber =
     and_then (open_table (meal_records db)) (\<lambda>t.
     and_then (bind_real amount) (\<lambda>v_amount.
     and_then (bind_real calories) (\<lambda>v_calories.
     and_then (bind_real protein) (\<lambda>v_protein.
     and_then (bind_real fat) (\<lambda>v_fat.
     and_then (bind_real carbs) (\<lambda>v_carbs.
     and_then (bind_real fiber) (\<lambda>v_fiber.
     if int64 record_id
     then Inr (db\<lparr>meal_records := Some (Declared (update_where (\<lambda>r. mr_id r = record_id)
            (\<lambda>r. r\<lparr>mr_date := date, mr_meal_type := meal_type, mr_food_name := food_name,
                   mr_amount := v_amount, mr_calories := v_calories, mr_protein := v_protein,
                   mr_fat := v_fat, mr_carbs := v_carbs, mr_fiber := v_fiber\<rparr>) t))\<rparr>)
     else Inl OverflowError)))))))"

definition get_daily_summary :: "sum_algorithm \<Rightarrow> database \<Rightarrow> string \<Rightarrow> db_error + py_dict" where
  "get_daily_summary alg db date =
     and_then (open_table (meal_records db)) (\<lambda>t.
       (let matching = filter (\<lambda>r. mr_date r = date) (rows t);
            row = (sql_sum alg (map mr_calories matching), sql_sum alg (map mr_protein matching),
                   sql_sum alg (map mr_fat matching), sql_sum alg (map mr_carbs matching),
                   sql_sum alg (map mr_fiber matching))
        in case row of (row0, row1, row2, row3, row4) \<Rightarrow>
          Inr [(''calories'', py_or row0 (PyInt 0)),
               (''protein'', py_or row1 (PyInt 0)),
               (''fat'', py_or row2 (PyInt 0)),
               (''carbs'', py_or row3 (PyInt 0)),
               (''fiber'', py_or row4 (PyInt 0))]))"

text \<open>One row of the data frame \<^verbatim>\<open>get_period_summary\<close> returns.\<close>

record period_summary_row =
  ps_date :: string
  total_calories :: py_value
  total_protein :: py_value
  total_fat :: py_value
  total_carbs :: py_value
  total_fiber :: py_value


definition period_summary_of ::
  "sum_algorithm \<Rightarrow> string \<times> meal_records_row list \<Rightarrow> period_summary_row" where
  "period_summary_of alg g =
     \<lparr>ps_date = fst g,
      total_calories = sql_sum alg (map mr_calories (snd g)),
      total_protein = sql_sum alg (map mr_protein (snd g)),
      total_fat = sql_sum alg (map mr_fat (snd g)),
      total_carbs = sql_sum alg (map mr_carbs (snd g)),
      total_fiber = sql_sum alg (map mr_fiber (snd g))\<rparr>"



text \<open>
  The primary key: no rowid occurs twice in a table, and none is above the table's counter.
\<close>

definition table_ok :: "('r \<Rightarrow> int) \<Rightarrow> 'r table \<Rightarrow> bool" where
  "table_ok rid t \<longleftrightarrow> distinct (map rid (rows t)) \<and> (\<forall>r \<in> set (rows t). rid r \<le> seq t)"

subsection \<open>A small database for the examples\<close>

definition no_tables :: database where
  "no_tables = \<lparr>food_master = None, meal_records = None\<rparr>"

definition example_food :: food_master_row where
  "example_food =
     \<lparr>fm_id = 1, fm_name = ''Rice'', fm_calories = 168, fm_protein = 3, fm_fat = 1,
      fm_carbs = 37, fm_fiber = 2\<rparr>"

definition example_meal :: "int \<Rightarrow> string \<Rightarrow> string \<Rightarrow> rat \<Rightarrow> meal_records_row" where
  "example_meal i d ts kcal =
     \<lparr>mr_id = i, mr_date = d, mr_meal_type = ''lunch'', mr_food_name = ''Rice'', mr_amount = 100,
      mr_calories = kcal, mr_protein = 3, mr_fat = 1, mr_carbs = 37, mr_fiber = 2,
      mr_created_at = ts\<rparr>"

definition example_meals :: "meal_records_row table" where
  "example_meals =
     \<lparr>rows = [example_meal 1 ''2024-01-01'' ''2024-01-01 08:00:00'' 252,
              example_meal 2 ''2024-01-05'' ''2024-01-05 12:30:00'' 168,
              example_meal 3 ''2024-01-10'' ''2024-01-10 19:00:00'' 84,
              example_meal 4 ''2024-01-05'' ''2024-01-11 09:15:00'' 100],
      seq = 4\<rparr>"

definition example_foods :: "food_master_row table" where
  "example_foods = \<lparr>rows = [example_food], seq = 1\<rparr>"

definition example_db :: database where
  "example_db =
     \<lparr>food_master = Some (Declared example_foods),
      meal_records = Some (Declared example_meals)\<rparr>"


text \<open>Two meals of one day whose calories are the floats 0.1 and 0.2.\<close>

definition float_0_1 :: rat where
  "float_0_1 = 3602879701896397 / 36028797018963968"

definition float_0_2 :: rat where
  "float_0_2 = 3602879701896397 / 18014398509481984"

definition tenths_db :: database where
  "tenths_db =
     \<lparr>food_master = Some (Declared empty_table),
      meal_records = Some (Declared
        \<lparr>rows = [example_meal 1 ''2024-01-01'' ''2024-01-01 08:00:00'' float_0_1,
                 example_meal 2 ''2024-01-01'' ''2024-01-01 12:00:00'' float_0_2],
         seq = 2\<rparr>)\<rparr>"

section \<open>Nutrient scaling before storage (src/app.py)\<close>

text \<open>
  The meal form scales the per-100g values of the selected food by the amount, in Python
  floats.
\<close>

text \<open>
  \<^verbatim>\<open>food_data["calories"]\<close> and the like, on the dicts of
  \<^verbatim>\<open>get_all_foods\<close>, which hold floats under the nutrient keys; a dict of any other
  shape (a \<^verbatim>\<open>KeyError\<close> or a value that is no float) gives \<open>None\<close>.
\<close>

definition dict_float :: "py_dict \<Rightarrow> string \<Rightarrow> rat option" where
  "dict_float d k = (case map_of d k of Some (PyFloat x) \<Rightarrow> Some x | _ \<Rightarrow> None)"

text \<open>
  The five variables \<^verbatim>\<open>calc_calories\<close> ... \<^verbatim>\<open>calc_fiber\<close> that the form
  computes from the selected food and the amount, and later passes to
  \<^verbatim>\<open>add_meal_record\<close>:
  \<^verbatim>\<open>ratio = amount / 100.0\<close>, then
  \<^verbatim>\<open>calc_calories = food_data["calories"] * ratio\<close> and so on.
\<close>

record calculated =
  calc_calories :: rat
  calc_protein :: rat
  calc_fat :: rat
  calc_carbs :: rat
  calc_fiber :: rat

definition calc_nutrients :: "py_dict \<Rightarrow> rat \<Rightarrow> calculated option" where
  "calc_nutrients food_data amount =
     Option.bind (float_truediv amount 100) (\<lambda>ratio.
     Option.bind (Option.bind (dict_float food_data ''calories'') (\<lambda>v. float_mul v ratio)) (\<lambda>c1.
     Option.bind (Option.bind (dict_float food_data ''protein'') (\<lambda>v. float_mul v ratio)) (\<lambda>c2.
     Option.bind (Option.bind (dict_float food_data ''fat'') (\<lambda>v. float_mul v ratio)) (\<lambda>c3.
     Option.bind (Option.bind (dict_float food_data ''carbs'') (\<lambda>v. float_mul v ratio)) (\<lambda>c4.
     Option.bind (Option.bind (dict_float food_data ''fiber'') (\<lambda>v. float_mul v ratio)) (\<lambda>c5.
       Some \<lparr>calc_calories = c1, calc_protein = c2, calc_fat = c3, calc_carbs = c4,
             calc_fiber = c5\<rparr>))))))"

text \<open>
  The food of the scenario, as \<^verbatim>\<open>get_all_foods\<close> returns it once it is stored:
  Rice with 168 kcal, 2.5 g protein, 0.3 g fat, 37.1 g carbs and 0.3 g fiber per 100 g.
  The decimals 0.3 and 37.1 are no binary fractions; a Python program holds the floats
  nearest to them.
\<close>

definition float_0_3 :: rat where
  "float_0_3 = 5404319552844595 / 18014398509481984"

definition float_37_1 :: rat where
  "float_37_1 = 5221360817982669 / 140737488355328"

definition rice_dict :: py_dict where
  "rice_dict =
     [(''id'', PyInt 1), (''name'', PyStr ''Rice''), (''calories'', PyFloat 168),
      (''protein'', PyFloat (5 / 2)), (''fat'', PyFloat float_0_3),
      (''carbs'', PyFloat float_37_1), (''fiber'', PyFloat float_0_3)]"

section \<open>Properties of binary64 rounding\<close>

lemma powi_bounds_unique:
  fixes x :: rat
  assumes "2 powi e \<le> x" "x < 2 powi (e + 1)" "2 powi e' \<le> x" "x < 2 powi (e' + 1)"
  shows "e = e'"
proof (rule ccontr)
  assume "e \<noteq> e'"
  then consider "e + 1 \<le> e'" | "e' + 1 \<le> e" by linarith
  then show False
  proof cases
    case 1
    then have "(2::rat) powi (e + 1) \<le> 2 powi e'"
      by (intro power_int_increasing) auto
    with assms show False by linarith
  next
    case 2
    then have "(2::rat) powi (e' + 1) \<le> 2 powi e"
      by (intro power_int_increasing) auto
    with assms show False by linarith
  qed
qed

lemma bitlen_powi_bounds:
  assumes "0 < a"
  shows "(2::rat) powi (bitlen a - 1) \<le> of_int a" "of_int a < (2::rat) powi (bitlen a)"
proof -
  from assms have pos: "1 \<le> bitlen a"
    by (auto simp: bitlen_alt_def)
  have "2 ^ nat (bitlen a - 1) \<le> a" "a < 2 ^ nat (bitlen a)"
    using bitlen_bounds[OF assms] by auto
  then have "(of_int (2 ^ nat (bitlen a - 1)) :: rat) \<le> of_int a" "(of_int a :: rat) < of_int (2 ^ nat (bitlen a))"
    by (simp_all only: of_int_le_iff of_int_less_iff)
  then show "(2::rat) powi (bitlen a - 1) \<le> of_int a" "of_int a < (2::rat) powi (bitlen a)"
    using pos by (simp_all add: power_int_def)
qed

lemma exponent_of_bounds:
  assumes "0 < x"
  shows "2 powi (exponent_of x) \<le> x \<and> x < 2 powi (exponent_of x + 1)"
proof -
  obtain a b where q: "quotient_of x = (a, b)"
    by (cases "quotient_of x")
  then have b: "0 < b" and x: "x = of_int a / of_int b"
    by (auto simp: quotient_of_denom_pos quotient_of_div)
  with assms have a: "0 < a"
    by (simp add: zero_less_divide_iff)
  define d where "d = bitlen a - bitlen b"
  have lo: "(2::rat) powi (d - 1) < x"
  proof -
    have "(2::rat) powi (d - 1) = 2 powi (bitlen a - 1) / 2 powi (bitlen b)"
      by (simp add: d_def power_int_diff)
    also have "\<dots> \<le> of_int a / 2 powi (bitlen b)"
      using bitlen_powi_bounds(1)[OF a] by (intro divide_right_mono) auto
    also have "\<dots> < of_int a / of_int b"
      using bitlen_powi_bounds(2)[OF b] a b by (intro divide_strict_left_mono) auto
    finally show ?thesis by (simp add: x)
  qed
  have hi: "x < (2::rat) powi (d + 1)"
  proof -
    have "x < 2 powi (bitlen a) / of_int b"
      unfolding x using bitlen_powi_bounds(2)[OF a] b by (intro divide_strict_right_mono) auto
    also have "\<dots> \<le> 2 powi (bitlen a) / 2 powi (bitlen b - 1)"
      using bitlen_powi_bounds(1)[OF b] b by (intro divide_left_mono) auto
    also have "\<dots> = 2 powi (d + 1)"
      by (simp add: d_def power_int_diff power_int_add)
    finally show ?thesis .
  qed
  have e: "exponent_of x = (if 2 powi d \<le> x then d else d - 1)"
    by (simp add: exponent_of_def q d_def Let_def)
  show ?thesis
  proof (cases "2 powi d \<le> x")
    case True
    then show ?thesis using hi e by simp
  next
    case False
    then show ?thesis using lo e by simp
  qed
qed

lemma exponent_of_eq:
  assumes "0 < x" "2 powi e \<le> x" "x < 2 powi (e + 1)"
  shows "exponent_of x = e"
  using exponent_of_bounds[OF assms(1)] assms(2,3) powi_bounds_unique by blast

lemma to_binary64_eq:
  assumes "0 < x" "2 powi e \<le> x" "x < 2 powi (e + 1)" "- 1022 \<le> e"
    and "round_half_even (x / 2 powi (e - 52)) = m"
    and "of_int m * 2 powi (e - 52) < (2::rat) powi 1024"
  shows "to_binary64 x = Some (of_int m * 2 powi (e - 52))"
  using assms by (simp add: to_binary64_def exponent_of_eq[OF assms(1-3)] Let_def max_def)

lemma round_half_even_near:
  assumes "of_int m - 1 / 2 < x" "x < of_int m + 1 / 2"
  shows "round_half_even x = m"
proof (cases "of_int m \<le> x")
  case True
  with assms have "\<lfloor>x\<rfloor> = m"
    by (intro floor_unique) linarith+
  with assms show ?thesis
    by (simp add: round_half_even_def Let_def)
next
  case False
  with assms have f: "\<lfloor>x\<rfloor> = m - 1"
    by (intro floor_unique) (simp, linarith)+
  have "1 / 2 < x - of_int (m - 1)"
    using assms by simp
  then show ?thesis
    unfolding round_half_even_def Let_def f by simp
qed

lemma round_half_even_tie:
  assumes "x = of_int m + 1 / 2 \<or> x = of_int m - 1 / 2" "even m"
  shows "round_half_even x = m"
proof -
  from assms(1) show ?thesis
  proof
    assume x: "x = of_int m + 1 / 2"
    then have "\<lfloor>x\<rfloor> = m" by (intro floor_unique) simp_all
    with x assms(2) show ?thesis by (simp add: round_half_even_def Let_def)
  next
    assume x: "x = of_int m - 1 / 2"
    then have "\<lfloor>x\<rfloor> = m - 1" by (intro floor_unique) simp_all
    with x assms(2) show ?thesis by (simp add: round_half_even_def Let_def)
  qed
qed

lemma literal_0_3: "to_binary64 (3 / 10) = Some float_0_3"
  using to_binary64_eq [of "3 / 10" "- 2" 5404319552844595]
    round_half_even_near [of 5404319552844595 "3 / 10 / 2 powi (- 54)"]
  by (simp add: power_int_minus float_0_3_def)

lemma literal_37_1: "to_binary64 (371 / 10) = Some float_37_1"
  using to_binary64_eq [of "371 / 10" 5 5221360817982669]
    round_half_even_near [of 5221360817982669 "371 / 10 / 2 powi (- 47)"]
  by (simp add: power_int_minus float_37_1_def)

lemma literal_0_45: "to_binary64 (45 / 100) = Some (8106479329266893 / 18014398509481984)"
  using to_binary64_eq [of "45 / 100" "- 2" 8106479329266893]
    round_half_even_near [of 8106479329266893 "45 / 100 / 2 powi (- 54)"]
  by (simp add: power_int_minus)

lemma literal_55_65: "to_binary64 (5565 / 100) = Some (7832041226974003 / 140737488355328)"
  using to_binary64_eq [of "5565 / 100" 5 7832041226974003]
    round_half_even_near [of 7832041226974003 "5565 / 100 / 2 powi (- 47)"]
  by (simp add: power_int_minus)

lemma to_binary64_exact:
  assumes "0 < x" "2 powi e \<le> x" "x < 2 powi (e + 1)" "- 1022 \<le> e" "e < 1024"
    and "x = of_int m * 2 powi (e - 52)"
  shows "to_binary64 x = Some x"
proof -
  have "x / 2 powi (e - 52) = of_int m"
    using assms(6) by simp
  then have r: "round_half_even (x / 2 powi (e - 52)) = m"
    using round_half_even_near [of m "of_int m"] by simp
  have "x < (2::rat) powi 1024"
    using assms(3,5) power_int_increasing [of "e + 1" 1024 "2::rat"] by simp
  then show ?thesis
    using to_binary64_eq [OF assms(1-4) r] assms(6) by simp
qed

lemma binary64_3_2: "to_binary64 (3 / 2) = Some (3 / 2)"
  by (rule to_binary64_exact [of "3 / 2" 0 6755399441055744]) (simp_all add: power_int_minus)

lemma binary64_252: "to_binary64 252 = Some 252"
  by (rule to_binary64_exact [of 252 7 8866461766385664]) (simp_all add: power_int_minus)

lemma binary64_15_4: "to_binary64 (15 / 4) = Some (15 / 4)"
  by (rule to_binary64_exact [of "15 / 4" 1 8444249301319680]) (simp_all add: power_int_minus)

lemma ratio_150: "float_truediv 150 100 = Some (3 / 2)"
  by (simp add: float_truediv_def binary64_3_2)

lemma mul_calories: "float_mul 168 (3 / 2) = Some 252"
  by (simp add: float_mul_def binary64_252)

lemma mul_protein: "float_mul (5 / 2) (3 / 2) = Some (15 / 4)"
  by (simp add: float_mul_def binary64_15_4)

lemma mul_fat: "float_mul float_0_3 (3 / 2) = Some (2026619832316723 / 4503599627370496)"
  using to_binary64_eq [of "float_0_3 * (3 / 2)" "- 2" 8106479329266892]
    round_half_even_tie [of "float_0_3 * (3 / 2) / 2 powi (- 54)" 8106479329266892]
  by (simp add: float_mul_def power_int_minus float_0_3_def)

lemma mul_carbs: "float_mul float_37_1 (3 / 2) = Some (1958010306743501 / 35184372088832)"
  using to_binary64_eq [of "float_37_1 * (3 / 2)" 5 7832041226974004]
    round_half_even_tie [of "float_37_1 * (3 / 2) / 2 powi (- 47)" 7832041226974004]
  by (simp add: float_mul_def power_int_minus float_37_1_def)

lemma to_binary64_zero [simp]: "to_binary64 0 = Some 0"
  by (simp add: to_binary64_def)

lemma to_binary64_minus: "to_binary64 (- x) = map_option uminus (to_binary64 x)"
  by (simp add: to_binary64_def Let_def)

lemma to_binary64_pos_int:
  assumes "0 < n" "n < 2 ^ 53"
  shows "to_binary64 (of_int n) = Some (of_int n)"
proof -
  let ?x = "of_int n :: rat"
  define e where "e = exponent_of ?x"
  have pos: "0 < ?x" using assms(1) by simp
  have lo: "2 powi e \<le> ?x" and hi: "?x < 2 powi (e + 1)"
    using exponent_of_bounds [OF pos] by (simp_all add: e_def)
  have "(1::int) \<le> n" using assms(1) by simp
  then have "of_int 1 \<le> ?x" by (simp only: of_int_le_iff)
  then have "1 \<le> ?x" by simp
  have e0: "0 \<le> e"
  proof (rule ccontr)
    assume "\<not> 0 \<le> e"
    then have "e + 1 \<le> 0" by simp
    then have "(2::rat) powi (e + 1) \<le> 2 powi 0"
      by (intro power_int_increasing) auto
    with hi \<open>1 \<le> ?x\<close> show False by simp
  qed
  have e52: "e \<le> 52"
  proof (rule ccontr)
    assume "\<not> e \<le> 52"
    then have "53 \<le> e" by simp
    then have "(2::rat) powi 53 \<le> 2 powi e"
      by (intro power_int_increasing) auto
    with lo have "(2::rat) ^ 53 \<le> ?x" by simp
    moreover have "?x < (2::rat) ^ 53"
      using assms(2) by (metis of_int_less_iff of_int_numeral of_int_power)
    ultimately show False by simp
  qed
  define k where "k = nat (52 - e)"
  have "(2::rat) powi (e - 52) = 1 / 2 ^ k"
    using e52 by (simp add: power_int_def k_def field_simps)
  then have m: "?x = of_int (n * 2 ^ k) * 2 powi (e - 52)"
    by simp
  show ?thesis
    using e0 e52 by (intro to_binary64_exact [OF pos lo hi _ _ m]) simp_all
qed

lemma to_binary64_int:
  assumes "\<bar>n\<bar> < 2 ^ 53"
  shows "to_binary64 (of_int n) = Some (of_int n)"
proof -
  consider "n = 0" | "0 < n" | "n < 0" by linarith
  then show ?thesis
  proof cases
    case 1
    then show ?thesis by simp
  next
    case 2
    with assms show ?thesis by (intro to_binary64_pos_int) simp_all
  next
    case 3
    with assms have "to_binary64 (of_int (- n)) = Some (of_int (- n))"
      by (intro to_binary64_pos_int) simp_all
    then have "to_binary64 (- of_int (- n)) = Some (- of_int (- n))"
      unfolding to_binary64_minus [of "of_int (- n)"] by simp
    then show ?thesis by simp
  qed
qed

lemma to_binary64_numeral:
  "numeral k < (2::int) ^ 53 \<Longrightarrow> to_binary64 (numeral k) = Some (numeral k)"
  "numeral k < (2::int) ^ 53 \<Longrightarrow> to_binary64 (- numeral k) = Some (- numeral k)"
  "to_binary64 1 = Some 1" "to_binary64 (- 1) = Some (- 1)"
  using to_binary64_int [of "numeral k"] to_binary64_int [of "- numeral k"] to_binary64_int [of 1]
    to_binary64_int [of "- 1"]
  by simp_all


section \<open>Properties of the storage component\<close>

subsection \<open>Steps, tables and arguments\<close>

lemma and_then_simps [simp]:
  "and_then (Inl err) f = Inl err" "and_then (Inr x) f = f x"
  by (simp_all add: and_then_def)

lemma open_table_simps [simp]:
  "open_table None = Inl OperationalError"
  "open_table (Some (Foreign cs)) = Inl OperationalError"
  "open_table (Some (Declared t)) = Inr t"
  by (simp_all add: open_table_def)

lemma open_table_Inr: "open_table s = Inr t \<longleftrightarrow> s = Some (Declared t)"
  by (auto simp: open_table_def split: option.splits stored.splits)

lemma and_then_Inr: "and_then r f = Inr y \<longleftrightarrow> (\<exists>x. r = Inr x \<and> f x = Inr y)"
  by (cases r) simp_all

lemma bind_real_float: "to_binary64 x = Some x \<Longrightarrow> bind_real (NumFloat x) = Inr x"
  by (simp add: bind_real_def)

lemma bind_real_int: "\<bar>i\<bar> < 2 ^ 53 \<Longrightarrow> bind_real (NumInt i) = Inr (of_int i)"
proof -
  assume small: "\<bar>i\<bar> < 2 ^ 53"
  then have "int64 i" by (auto simp: int64_def)
  then show ?thesis using to_binary64_int [OF small] by (simp add: bind_real_def)
qed

lemma bind_real_numeral [simp]:
  "numeral k < (2::int) ^ 53 \<Longrightarrow> bind_real (NumInt (numeral k)) = Inr (numeral k)"
  "numeral k < (2::int) ^ 53 \<Longrightarrow> bind_real (NumFloat (numeral k)) = Inr (numeral k)"
  "bind_real (NumInt 0) = Inr 0" "bind_real (NumInt 1) = Inr 1"
  using bind_real_int [of "numeral k"] bind_real_int [of 0] bind_real_int [of 1]
    bind_real_float [of "numeral k"]
  by (simp_all add: to_binary64_numeral)

lemmas example_defs = example_db_def example_meals_def example_meal_def example_food_def
  example_foods_def

subsection \<open>SUM\<close>

lemma fl_round_not_nan [simp]: "fl_round x \<noteq> FlNaN"
  by (simp add: fl_round_def split: option.splits)

lemma fl_add_num_not_nan: "s \<noteq> FlNaN \<Longrightarrow> fl_add s (FlNum v) \<noteq> FlNaN"
  by (cases s) simp_all

lemma plain_not_nan: "s \<noteq> FlNaN \<Longrightarrow> fold (\<lambda>v s. fl_add s (FlNum v)) xs s \<noteq> FlNaN"
  by (induction xs arbitrary: s) (simp_all add: fl_add_num_not_nan)

lemma kbn_not_nan:
  "fst acc \<noteq> FlNaN \<Longrightarrow> fst (fold (\<lambda>v acc. kbn_step acc v) xs acc) \<noteq> FlNaN"
proof (induction xs arbitrary: acc)
  case Nil
  then show ?case by simp
next
  case (Cons x xs)
  have "fst (kbn_step acc x) \<noteq> FlNaN"
    using Cons.prems by (cases acc) (simp add: kbn_step_def Let_def fl_add_num_not_nan)
  then show ?case using Cons.IH by simp
qed

lemma kbn_final_not_nan: "fst acc \<noteq> FlNaN \<Longrightarrow> kbn_final acc \<noteq> FlNaN"
  by (cases acc) (auto simp: kbn_final_def fl_add_num_not_nan split: fl.splits)

lemma real_total_not_nan: "real_total alg xs \<noteq> FlNaN"
  by (cases alg) (simp_all add: real_total_def plain_not_nan kbn_final_not_nan kbn_not_nan)

lemma py_of_fl_total [simp]: "py_of_fl (real_total alg xs) \<noteq> PyNone"
  using real_total_not_nan [of alg xs] by (cases "real_total alg xs") simp_all





text \<open>
  The floats 0.1 and 0.2 add up to 0.30000000000000004 by either algorithm; their exact
  sum is no float.
\<close>

lemma tenth_1: "to_binary64 float_0_1 = Some float_0_1"
  by (rule to_binary64_exact [of float_0_1 "- 4" 7205759403792794])
    (simp_all add: power_int_minus float_0_1_def)

lemma tenth_2: "to_binary64 (10808639105689191 / 36028797018963968) =
    Some (1351079888211149 / 4503599627370496)"
  using to_binary64_eq [of "10808639105689191 / 36028797018963968" "- 2" 5404319552844596]
    round_half_even_tie [of "10808639105689191 / 36028797018963968 / 2 powi (- 54)" 5404319552844596]
  by (simp add: power_int_minus)

lemma tenth_3: "to_binary64 (1801439850948199 / 18014398509481984) =
    Some (1801439850948199 / 18014398509481984)"
  by (rule to_binary64_exact [of "1801439850948199 / 18014398509481984" "- 4" 7205759403792796])
    (simp_all add: power_int_minus)

lemma tenth_4: "to_binary64 (1 / 36028797018963968) = Some (1 / 36028797018963968)"
  by (rule to_binary64_exact [of "1 / 36028797018963968" "- 55" 4503599627370496])
    (simp_all add: power_int_minus)

lemma sum_tenths:
  "sql_sum Plain [float_0_1, float_0_2] = PyFloat (1351079888211149 / 4503599627370496)
   \<and> sql_sum Compensated [float_0_1, float_0_2] = PyFloat (1351079888211149 / 4503599627370496)"
  using tenth_1 tenth_2 tenth_3 tenth_4
    to_binary64_minus [of "1801439850948199 / 18014398509481984"]
    to_binary64_minus [of "1 / 36028797018963968"]
  by (simp add: sql_sum_def real_total_def kbn_step_def kbn_final_def fl_sub_def Let_def
      fl_round_def float_0_1_def float_0_2_def)

subsection \<open>Daily summary\<close>




lemma daily_summary_tenths:
  "(case get_daily_summary alg tenths_db ''2024-01-01'' of
      Inl err \<Rightarrow> False
    | Inr s \<Rightarrow> map_of s ''calories'' = Some (PyFloat (1351079888211149 / 4503599627370496)))"
  using sum_tenths
  by (cases alg) (simp_all add: get_daily_summary_def tenths_db_def example_meal_def py_or_def Let_def)

subsection \<open>Date ranges\<close>

lemma between_iff: "between x lo hi \<longleftrightarrow> lo \<le> x \<and> x \<le> hi"
  by (simp add: between_def)

text \<open>
  Claim C3. On a database whose \<^verbatim>\<open>meal_records\<close> table exists,
  \<^verbatim>\<open>get_meals_by_date_range\<close> returns exactly the rows whose date \<open>d\<close> satisfies
  \<open>start \<le> d \<le> end\<close> in the bytewise string order, each as often as the table holds it
  and no other row, ordered by date and, within one date, by \<^verbatim>\<open>created_at\<close>.
\<close>

theorem get_meals_by_date_range_exact:
  assumes "meal_records db = Some (Declared t)"
  shows "\<exists>rs. get_meals_by_date_range db s e = Inr rs
     \<and> mset rs = mset (filter (\<lambda>r. s \<le> mr_date r \<and> mr_date r \<le> e) (rows t))
     \<and> sorted_wrt (\<lambda>a b. mr_date a < mr_date b
          \<or> (mr_date a = mr_date b \<and> mr_created_at a \<le> mr_created_at b)) rs"
proof -
  let ?key = "\<lambda>r. (mr_date r, mr_created_at r)"
  let ?sel = "filter (\<lambda>r. between (mr_date r) s e) (rows t)"
  have "sorted (map ?key (sort_key ?key ?sel))"
    by (rule sorted_sort_key)
  then have "sorted_wrt (\<lambda>a b. ?key a \<le> ?key b) (sort_key ?key ?sel)"
    by (simp add: sorted_map)
  then have "sorted_wrt (\<lambda>a b. mr_date a < mr_date b
          \<or> (mr_date a = mr_date b \<and> mr_created_at a \<le> mr_created_at b)) (sort_key ?key ?sel)"
    by (rule sorted_wrt_mono_rel[rotated]) auto
  then show ?thesis
    using assms by (simp add: get_meals_by_date_range_def between_iff)
qed

theorem get_meals_by_date_range_exact_witness:
  "meal_records example_db = Some (Declared example_meals)
   \<and> get_meals_by_date_range example_db ''2024-01-02'' ''2024-01-08'' =
       Inr [example_meal 2 ''2024-01-05'' ''2024-01-05 12:30:00'' 168,
            example_meal 4 ''2024-01-05'' ''2024-01-11 09:15:00'' 100]
   \<and> get_meals_by_date_range example_db ''2024-01-01'' ''2024-01-05'' =
       Inr [example_meal 1 ''2024-01-01'' ''2024-01-01 08:00:00'' 252,
            example_meal 2 ''2024-01-05'' ''2024-01-05 12:30:00'' 168,
            example_meal 4 ''2024-01-05'' ''2024-01-11 09:15:00'' 100]"
  using get_meals_by_date_range_exact [of example_db example_meals "''2024-01-02''" "''2024-01-08''"]
    get_meals_by_date_range_exact [of example_db example_meals "''2024-01-01''" "''2024-01-05''"]
  by (simp add: get_meals_by_date_range_def example_defs between_def)

subsection \<open>Period summary\<close>

lemma ps_date_summary [simp]: "ps_date (period_summary_of alg g) = fst g"
  by (simp add: period_summary_of_def)




subsection \<open>Update and delete\<close>

text \<open>
  Claim C4, as the code has it. On a database whose \<^verbatim>\<open>meal_records\<close> table exists,
  for an id within the signed 64-bit range and numeric arguments that can be bound,
  \<^verbatim>\<open>update_meal_record\<close> succeeds. Afterwards, for every stored record with the
  given id, every range query whose interval contains the new date returns that record with
  all nine mutable fields replaced by the new values (the numbers as the \<^verbatim>\<open>REAL\<close>
  columns hold them); no range query whose interval does not contain the new date (one that
  covers only the old date, say) returns a record with that id; and when no record has the
  id, the database is unchanged.
\<close>

theorem update_meal_record_visible:
  assumes "meal_records db = Some (Declared t)" "int64 i"
    and "bind_real amount = Inr am" "bind_real calories = Inr c" "bind_real protein = Inr p"
    and "bind_real fat = Inr f" "bind_real carbs = Inr cb" "bind_real fiber = Inr fi"
  shows "\<exists>db'. update_meal_record db i d mt fn amount calories protein fat carbs fiber = Inr db'
     \<and> (\<forall>r \<in> set (rows t). \<forall>s e. mr_id r = i \<and> s \<le> d \<and> d \<le> e \<longrightarrow>
          (\<exists>rs. get_meals_by_date_range db' s e = Inr rs
             \<and> \<lparr>mr_id = i, mr_date = d, mr_meal_type = mt, mr_food_name = fn, mr_amount = am,
                 mr_calories = c, mr_protein = p, mr_fat = f, mr_carbs = cb, mr_fiber = fi,
                 mr_created_at = mr_created_at r\<rparr> \<in> set rs))
     \<and> (\<forall>s e. \<not> (s \<le> d \<and> d \<le> e) \<longrightarrow>
          (\<exists>rs. get_meals_by_date_range db' s e = Inr rs \<and> i \<notin> mr_id ` set rs))
     \<and> (i \<notin> mr_id ` set (rows t) \<longrightarrow> db' = db)"
proof -
  let ?f = "\<lambda>r. r\<lparr>mr_date := d, mr_meal_type := mt, mr_food_name := fn,
                   mr_amount := am, mr_calories := c, mr_protein := p,
                   mr_fat := f, mr_carbs := cb, mr_fiber := fi\<rparr>"
  let ?g = "\<lambda>r. if mr_id r = i then ?f r else r"
  have same: "map ?g (rows t) = rows t" if "i \<notin> mr_id ` set (rows t)"
    using that by (intro map_idI) auto
  have new: "?f r = \<lparr>mr_id = i, mr_date = d, mr_meal_type = mt, mr_food_name = fn, mr_amount = am,
                 mr_calories = c, mr_protein = p, mr_fat = f, mr_carbs = cb, mr_fiber = fi,
                 mr_created_at = mr_created_at r\<rparr>" if "mr_id r = i" for r
    using that by (cases r) simp
  define t' where "t' = update_where (\<lambda>r. mr_id r = i) ?f t"
  define db' where "db' = db\<lparr>meal_records := Some (Declared t')\<rparr>"
  have upd: "update_meal_record db i d mt fn amount calories protein fat carbs fiber = Inr db'"
    using assms by (simp add: update_meal_record_def db'_def t'_def)
  have rows': "rows t' = map ?g (rows t)"
    by (simp add: t'_def update_where_def)
  have range: "get_meals_by_date_range db' s e =
      Inr (sort_key (\<lambda>r. (mr_date r, mr_created_at r)) (filter (\<lambda>r. between (mr_date r) s e) (rows t')))" for s e
    by (simp add: get_meals_by_date_range_def db'_def)
  have inside: "\<exists>rs. get_meals_by_date_range db' s e = Inr rs
             \<and> \<lparr>mr_id = i, mr_date = d, mr_meal_type = mt, mr_food_name = fn, mr_amount = am,
                 mr_calories = c, mr_protein = p, mr_fat = f, mr_carbs = cb, mr_fiber = fi,
                 mr_created_at = mr_created_at r\<rparr> \<in> set rs"
    if "r \<in> set (rows t)" "mr_id r = i" "s \<le> d" "d \<le> e" for r s e
  proof -
    have "?g r \<in> set (rows t')"
      using that(1) unfolding rows' set_map by (rule imageI)
    moreover have "?g r = ?f r" using that(2) by simp
    moreover have "between (mr_date (?f r)) s e"
      using that(3,4) by (simp add: between_iff)
    ultimately show ?thesis
      unfolding range using new[OF that(2)] by (simp del: sort_key_simps)
  qed
  have outside: "\<exists>rs. get_meals_by_date_range db' s e = Inr rs \<and> i \<notin> mr_id ` set rs"
    if "\<not> (s \<le> d \<and> d \<le> e)" for s e
  proof -
    have False if x: "x \<in> set (rows t')" "between (mr_date x) s e" "mr_id x = i" for x
    proof -
      from x(1) obtain r where r: "r \<in> set (rows t)" "x = ?g r"
        unfolding rows' by auto
      show False
      proof (cases "mr_id r = i")
        case True
        then have "mr_date x = d" using r(2) by simp
        then show False using x(2) \<open>\<not> (s \<le> d \<and> d \<le> e)\<close> by (simp add: between_iff)
      next
        case False
        then show False using r(2) x(3) by simp
      qed
    qed
    then show ?thesis
      unfolding range by auto
  qed
  have noop: "db' = db" if "i \<notin> mr_id ` set (rows t)"
    using assms(1) same[OF that] by (simp add: db'_def t'_def update_where_def)
  show ?thesis
    using upd inside outside noop by blast
qed

theorem update_meal_record_visible_witness:
  "meal_records example_db = Some (Declared example_meals)
   \<and> int64 2 \<and> int64 99
   \<and> bind_real (NumFloat 50) = Inr 50 \<and> bind_real (NumInt 130) = Inr 130
   \<and> bind_real (NumInt 4) = Inr 4 \<and> bind_real (NumInt 2) = Inr 2
   \<and> bind_real (NumInt 25) = Inr 25 \<and> bind_real (NumInt 1) = Inr 1
   \<and> example_meal 2 ''2024-01-05'' ''2024-01-05 12:30:00'' 168 \<in> set (rows example_meals)
   \<and> ''2024-01-15'' \<le> ''2024-01-20'' \<and> ''2024-01-20'' \<le> ''2024-01-31''
   \<and> \<not> (''2024-01-05'' \<le> ''2024-01-20'' \<and> ''2024-01-20'' \<le> ''2024-01-05'')
   \<and> (case update_meal_record example_db 2 ''2024-01-20'' ''dinner'' ''Bread'' (NumFloat 50)
           (NumInt 130) (NumInt 4) (NumInt 2) (NumInt 25) (NumInt 1) of
         Inl err \<Rightarrow> False
       | Inr db' \<Rightarrow>
           get_meals_by_date_range db' ''2024-01-15'' ''2024-01-31'' =
             Inr [\<lparr>mr_id = 2, mr_date = ''2024-01-20'', mr_meal_type = ''dinner'',
                    mr_food_name = ''Bread'', mr_amount = 50, mr_calories = 130, mr_protein = 4,
                    mr_fat = 2, mr_carbs = 25, mr_fiber = 1,
                    mr_created_at = ''2024-01-05 12:30:00''\<rparr>]
         \<and> get_meals_by_date_range db' ''2024-01-05'' ''2024-01-05'' =
             Inr [example_meal 4 ''2024-01-05'' ''2024-01-11 09:15:00'' 100])
   \<and> 99 \<notin> mr_id ` set (rows example_meals)
   \<and> update_meal_record example_db 99 ''2024-01-20'' ''dinner'' ''Bread'' (NumFloat 50)
         (NumInt 130) (NumInt 4) (NumInt 2) (NumInt 25) (NumInt 1) = Inr example_db"
  using update_meal_record_visible [of example_db example_meals 2 "NumFloat 50" 50 "NumInt 130" 130
      "NumInt 4" 4 "NumInt 2" 2 "NumInt 25" 25 "NumInt 1" 1 "''2024-01-20''" "''dinner''" "''Bread''"]
    update_meal_record_visible [of example_db example_meals 99 "NumFloat 50" 50 "NumInt 130" 130
      "NumInt 4" 4 "NumInt 2" 2 "NumInt 25" 25 "NumInt 1" 1 "''2024-01-20''" "''dinner''" "''Bread''"]
  by (simp add: update_meal_record_def update_where_def get_meals_by_date_range_def between_def
      example_defs int64_def)

text \<open>
  Claim C4 as it is worded. No record has the id \<open>2\<^sup>6\<^sup>3\<close>, and the update with that id is
  no silent no-op: binding the id raises \<^verbatim>\<open>OverflowError\<close>.
\<close>

theorem update_meal_record_overflow:
  "2 ^ 63 \<notin> mr_id ` set (rows example_meals)
   \<and> update_meal_record example_db (2 ^ 63) ''2024-01-20'' ''dinner'' ''Bread'' (NumFloat 50)
         (NumInt 130) (NumInt 4) (NumInt 2) (NumInt 25) (NumInt 1) = Inl OverflowError"
  by (simp add: update_meal_record_def example_defs int64_def)

text \<open>
  Claim C9. Whenever \<^verbatim>\<open>update_meal_record\<close> succeeds, it has changed nothing but
  the rows of \<^verbatim>\<open>meal_records\<close>: their number and order are kept, every row with the
  given id keeps its id and \<^verbatim>\<open>created_at\<close>, and every row with another id is as it
  was. (A call that raises changes nothing at all.)
\<close>

theorem update_frame:
  assumes "update_meal_record db i d mt fn amount calories protein fat carbs fiber = Inr db'"
  shows "\<exists>t t'. meal_records db = Some (Declared t)
     \<and> db' = db\<lparr>meal_records := Some (Declared t')\<rparr>
     \<and> length (rows t') = length (rows t) \<and> seq t' = seq t
     \<and> (\<forall>k<length (rows t).
          (mr_id (rows t ! k) = i \<longrightarrow>
             mr_id (rows t' ! k) = i \<and> mr_created_at (rows t' ! k) = mr_created_at (rows t ! k))
        \<and> (mr_id (rows t ! k) \<noteq> i \<longrightarrow> rows t' ! k = rows t ! k))"
proof -
  from assms obtain t where t: "meal_records db = Some (Declared t)"
    by (auto simp: update_meal_record_def and_then_Inr open_table_Inr)
  from assms t obtain am c p f cb fi where
    db'': "db' = db\<lparr>meal_records := Some (Declared (update_where (\<lambda>r. mr_id r = i)
      (\<lambda>r. r\<lparr>mr_date := d, mr_meal_type := mt, mr_food_name := fn, mr_amount := am,
             mr_calories := c, mr_protein := p, mr_fat := f, mr_carbs := cb,
             mr_fiber := fi\<rparr>) t))\<rparr>"
    by (auto simp: update_meal_record_def and_then_Inr split: if_splits)
  define g :: "meal_records_row \<Rightarrow> meal_records_row" where "g = (\<lambda>r. r\<lparr>mr_date := d, mr_meal_type := mt, mr_food_name := fn,
      mr_amount := am, mr_calories := c, mr_protein := p, mr_fat := f, mr_carbs := cb,
      mr_fiber := fi\<rparr>)"
  have g: "\<And>r. mr_id (g r) = mr_id r" "\<And>r. mr_created_at (g r) = mr_created_at r"
    by (simp_all add: g_def)
  have db': "db' = db\<lparr>meal_records := Some (Declared (update_where (\<lambda>r. mr_id r = i) g t))\<rparr>"
    using db'' by (simp add: g_def)
  let ?t' = "update_where (\<lambda>r. mr_id r = i) g t"
  have "length (rows ?t') = length (rows t)" "seq ?t' = seq t"
    by (simp_all add: update_where_def)
  moreover have "mr_id (rows ?t' ! k) = i \<and> mr_created_at (rows ?t' ! k) = mr_created_at (rows t ! k)"
    if "k < length (rows t)" "mr_id (rows t ! k) = i" for k
    using that g by (simp add: update_where_def)
  moreover have "rows ?t' ! k = rows t ! k" if "k < length (rows t)" "mr_id (rows t ! k) \<noteq> i" for k
    using that by (simp add: update_where_def)
  ultimately show ?thesis
    using t db' by blast
qed

theorem update_frame_witness:
  "update_meal_record example_db 2 ''2024-01-20'' ''dinner'' ''Bread'' (NumFloat 50)
       (NumInt 130) (NumInt 4) (NumInt 2) (NumInt 25) (NumInt 1) =
     Inr (example_db\<lparr>meal_records := Some (Declared
         \<lparr>rows = [example_meal 1 ''2024-01-01'' ''2024-01-01 08:00:00'' 252,
                  \<lparr>mr_id = 2, mr_date = ''2024-01-20'', mr_meal_type = ''dinner'',
                    mr_food_name = ''Bread'', mr_amount = 50, mr_calories = 130, mr_protein = 4,
                    mr_fat = 2, mr_carbs = 25, mr_fiber = 1,
                    mr_created_at = ''2024-01-05 12:30:00''\<rparr>,
                  example_meal 3 ''2024-01-10'' ''2024-01-10 19:00:00'' 84,
                  example_meal 4 ''2024-01-05'' ''2024-01-11 09:15:00'' 100],
          seq = 4\<rparr>)\<rparr>)"
proof -
  have ok: "update_meal_record example_db 2 ''2024-01-20'' ''dinner'' ''Bread'' (NumFloat 50)
       (NumInt 130) (NumInt 4) (NumInt 2) (NumInt 25) (NumInt 1) =
     Inr (example_db\<lparr>meal_records := Some (Declared
         \<lparr>rows = [example_meal 1 ''2024-01-01'' ''2024-01-01 08:00:00'' 252,
                  \<lparr>mr_id = 2, mr_date = ''2024-01-20'', mr_meal_type = ''dinner'',
                    mr_food_name = ''Bread'', mr_amount = 50, mr_calories = 130, mr_protein = 4,
                    mr_fat = 2, mr_carbs = 25, mr_fiber = 1,
                    mr_created_at = ''2024-01-05 12:30:00''\<rparr>,
                  example_meal 3 ''2024-01-10'' ''2024-01-10 19:00:00'' 84,
                  example_meal 4 ''2024-01-05'' ''2024-01-11 09:15:00'' 100],
          seq = 4\<rparr>)\<rparr>)"
    by (simp add: update_meal_record_def update_where_def example_defs int64_def)
  from update_frame [OF ok] ok show ?thesis by simp
qed

text \<open>
  Claim C5, as the code has it. On a database whose \<^verbatim>\<open>meal_records\<close> table exists,
  for every id within the signed 64-bit range, \<^verbatim>\<open>delete_meal_record\<close> returns
  normally; it leaves \<^verbatim>\<open>food_master\<close> as it was, removes the rows with the given id
  and keeps all others in place; and when no row has the id, the whole database is unchanged.
\<close>

theorem delete_meal_record_ok:
  assumes "meal_records db = Some (Declared t)" "int64 i"
  shows "\<exists>db' t'. delete_meal_record db i = Inr db'
     \<and> food_master db' = food_master db
     \<and> meal_records db' = Some (Declared t')
     \<and> rows t' = filter (\<lambda>r. mr_id r \<noteq> i) (rows t) \<and> seq t' = seq t
     \<and> (i \<notin> mr_id ` set (rows t) \<longrightarrow> db' = db)"
proof -
  have "filter (\<lambda>r. mr_id r \<noteq> i) (rows t) = rows t" if "i \<notin> mr_id ` set (rows t)"
    using that by (intro filter_True) auto
  then show ?thesis
    using assms by (auto simp: delete_meal_record_def delete_where_def)
qed

theorem delete_meal_record_ok_witness:
  "meal_records example_db = Some (Declared example_meals)
   \<and> int64 99 \<and> int64 2
   \<and> 99 \<notin> mr_id ` set (rows example_meals)
   \<and> delete_meal_record example_db 99 = Inr example_db
   \<and> delete_meal_record example_db 2 =
       Inr (example_db\<lparr>meal_records := Some (Declared
         \<lparr>rows = [example_meal 1 ''2024-01-01'' ''2024-01-01 08:00:00'' 252,
                  example_meal 3 ''2024-01-10'' ''2024-01-10 19:00:00'' 84,
                  example_meal 4 ''2024-01-05'' ''2024-01-11 09:15:00'' 100],
          seq = 4\<rparr>)\<rparr>)"
  using delete_meal_record_ok [of example_db example_meals 99]
    delete_meal_record_ok [of example_db example_meals 2]
  by (simp add: delete_meal_record_def delete_where_def example_defs int64_def)

text \<open>
  Claim C5 as it is worded. No record has the id \<open>2\<^sup>6\<^sup>3\<close>, and deleting it raises: the
  \<^verbatim>\<open>sqlite3\<close> module refuses to bind an \<^verbatim>\<open>int\<close> beyond 64 bits
  (\<^verbatim>\<open>OverflowError\<close>).
\<close>

theorem delete_meal_record_overflow:
  "2 ^ 63 \<notin> mr_id ` set (rows example_meals)
   \<and> delete_meal_record example_db (2 ^ 63) = Inl OverflowError"
  by (simp add: delete_meal_record_def example_defs int64_def)

subsection \<open>Food master\<close>

lemma binary64_float_0_3: "to_binary64 float_0_3 = Some float_0_3"
  by (rule to_binary64_exact [of float_0_3 "- 2" 5404319552844595])
    (simp_all add: power_int_minus float_0_3_def)

lemma representable_simps [simp]:
  "numeral k < (2::int) ^ 53 \<Longrightarrow> representable (NumInt (numeral k))"
  "numeral k < (2::int) ^ 53 \<Longrightarrow> representable (NumFloat (numeral k))"
  "representable (NumInt 0)" "representable (NumInt 1)"
  by (simp_all add: representable_def)

lemma representable_float_0_3: "representable (NumFloat float_0_3)"
  by (simp add: representable_def bind_real_float binary64_float_0_3)

text \<open>
  Claim C6. On a database whose \<^verbatim>\<open>food_master\<close> table exists and is not full,
  \<^verbatim>\<open>add_food_to_master\<close> succeeds for every name and all numbers that a
  \<^verbatim>\<open>REAL\<close> column holds unchanged (every finite float, and every \<^verbatim>\<open>int\<close> that
  is a float), and \<^verbatim>\<open>get_all_foods\<close> afterwards returns a list that contains a dict
  with exactly the given name, calories, protein, fat, carbs and fiber. The list is the
  dicts of the rows in ascending order of name, and these rows are all the old rows and the
  new one: an entry of the same name, if there was one, is kept beside the new entry.
\<close>

theorem add_food_then_list:
  assumes "food_master db = Some (Declared t)" "int64 (next_rowid fm_id t)"
    and "representable calories" "representable protein" "representable fat"
    and "representable carbs" "representable fiber"
  shows "\<exists>db' foods sorted_rows k. add_food_to_master db n calories protein fat carbs fiber = Inr db'
     \<and> get_all_foods db' = Inr foods
     \<and> [(''id'', PyInt k), (''name'', PyStr n), (''calories'', PyFloat (number_value calories)),
         (''protein'', PyFloat (number_value protein)), (''fat'', PyFloat (number_value fat)),
         (''carbs'', PyFloat (number_value carbs)), (''fiber'', PyFloat (number_value fiber))]
        \<in> set foods
     \<and> foods = map food_dict sorted_rows \<and> sorted (map fm_name sorted_rows)
     \<and> mset sorted_rows = mset (rows t) + {#\<lparr>fm_id = k, fm_name = n,
          fm_calories = number_value calories, fm_protein = number_value protein,
          fm_fat = number_value fat, fm_carbs = number_value carbs,
          fm_fiber = number_value fiber\<rparr>#}"
proof -
  let ?k = "next_rowid fm_id t"
  let ?new = "\<lparr>fm_id = ?k, fm_name = n, fm_calories = number_value calories,
      fm_protein = number_value protein, fm_fat = number_value fat,
      fm_carbs = number_value carbs, fm_fiber = number_value fiber\<rparr>"
  let ?db' = "db\<lparr>food_master := Some (Declared \<lparr>rows = rows t @ [?new], seq = ?k\<rparr>)\<rparr>"
  let ?rs = "sort_key fm_name (rows t @ [?new])"
  have added: "add_food_to_master db n calories protein fat carbs fiber = Inr ?db'"
    using assms by (simp add: add_food_to_master_def insert_row_def Let_def representable_def)
  have listed: "get_all_foods ?db' = Inr (map food_dict ?rs)"
    by (simp add: get_all_foods_def)
  have "?new \<in> set ?rs"
    by simp
  then have "food_dict ?new \<in> set (map food_dict ?rs)"
    unfolding set_map by (rule imageI)
  then have entry: "[(''id'', PyInt ?k), (''name'', PyStr n),
      (''calories'', PyFloat (number_value calories)),
      (''protein'', PyFloat (number_value protein)), (''fat'', PyFloat (number_value fat)),
      (''carbs'', PyFloat (number_value carbs)), (''fiber'', PyFloat (number_value fiber))]
      \<in> set (map food_dict ?rs)"
    by (simp add: food_dict_def)
  have ordered: "sorted (map fm_name ?rs)"
    by (rule sorted_sort_key)
  have all_rows: "mset ?rs = mset (rows t) + {#?new#}"
    by simp
  from added listed entry ordered all_rows show ?thesis
    by blast
qed

theorem add_food_then_list_witness:
  "food_master example_db = Some (Declared example_foods)
   \<and> int64 (next_rowid fm_id example_foods)
   \<and> representable (NumFloat 130) \<and> representable (NumInt 3)
   \<and> representable (NumFloat float_0_3) \<and> representable (NumInt 28) \<and> representable (NumInt 0)
   \<and> (case add_food_to_master example_db ''Rice'' (NumFloat 130) (NumInt 3) (NumFloat float_0_3)
           (NumInt 28) (NumInt 0) of
         Inl err \<Rightarrow> False
       | Inr db' \<Rightarrow>
           get_all_foods db' =
             Inr [[(''id'', PyInt 1), (''name'', PyStr ''Rice''), (''calories'', PyFloat 168),
                   (''protein'', PyFloat 3), (''fat'', PyFloat 1),
                   (''carbs'', PyFloat 37), (''fiber'', PyFloat 2)],
                  [(''id'', PyInt 2), (''name'', PyStr ''Rice''), (''calories'', PyFloat 130),
                   (''protein'', PyFloat 3), (''fat'', PyFloat float_0_3),
                   (''carbs'', PyFloat 28), (''fiber'', PyFloat 0)]])"
  using add_food_then_list [of example_db example_foods "NumFloat 130" "NumInt 3"
      "NumFloat float_0_3" "NumInt 28" "NumInt 0" "''Rice''"] representable_float_0_3
  by (simp add: add_food_to_master_def get_all_foods_def insert_row_def next_rowid_def
      food_dict_def example_defs int64_def representable_def)

text \<open>
  What the hypothesis on the numbers excludes: the \<^verbatim>\<open>int\<close> \<open>2\<^sup>5\<^sup>3 + 1\<close> is stored
  as the float \<open>2\<^sup>5\<^sup>3\<close>.
\<close>

lemma bind_real_rounds: "bind_real (NumInt (2 ^ 53 + 1)) = Inr (2 ^ 53)"
proof -
  have "to_binary64 (2 ^ 53 + 1) = Some (2 ^ 53)"
    using to_binary64_eq [of "2 ^ 53 + 1" 53 4503599627370496]
      round_half_even_tie [of "(2 ^ 53 + 1) / 2 powi 1" 4503599627370496]
    by simp
  then show ?thesis
    by (simp add: bind_real_def int64_def)
qed

subsection \<open>Initialisation and the two tables\<close>




text \<open>
  Claim C10. Whenever \<^verbatim>\<open>add_meal_record\<close>, \<^verbatim>\<open>update_meal_record\<close> or
  \<^verbatim>\<open>delete_meal_record\<close> succeeds, the \<^verbatim>\<open>food_master\<close> table (rows and
  rowid counter) is as before; whenever \<^verbatim>\<open>add_food_to_master\<close> succeeds, the
  \<^verbatim>\<open>meal_records\<close> table is as before.
\<close>

theorem tables_disjoint:
  "(add_meal_record now db d mt fn am c p f cb fi = Inr db1 \<longrightarrow> food_master db1 = food_master db)
   \<and> (update_meal_record db i d mt fn am c p f cb fi = Inr db2 \<longrightarrow> food_master db2 = food_master db)
   \<and> (delete_meal_record db i = Inr db3 \<longrightarrow> food_master db3 = food_master db)
   \<and> (add_food_to_master db n c p f cb fi = Inr db4 \<longrightarrow> meal_records db4 = meal_records db)"
  by (auto simp: add_meal_record_def update_meal_record_def delete_meal_record_def
      add_food_to_master_def and_then_Inr split: if_splits)

theorem tables_disjoint_witness:
  "(case add_meal_record ''2024-01-20 20:00:00'' example_db ''2024-01-20'' ''dinner'' ''Bread''
           (NumFloat 50) (NumInt 130) (NumInt 4) (NumInt 2) (NumInt 25) (NumInt 1) of
      Inl err \<Rightarrow> False | Inr db1 \<Rightarrow> food_master db1 = food_master example_db)
   \<and> (case update_meal_record example_db 2 ''2024-01-20'' ''dinner'' ''Bread''
           (NumFloat 50) (NumInt 130) (NumInt 4) (NumInt 2) (NumInt 25) (NumInt 1) of
      Inl err \<Rightarrow> False | Inr db2 \<Rightarrow> food_master db2 = food_master example_db)
   \<and> (case delete_meal_record example_db 2 of
      Inl err \<Rightarrow> False | Inr db3 \<Rightarrow> food_master db3 = food_master example_db)
   \<and> (case add_food_to_master example_db ''Bread'' (NumInt 130) (NumInt 4) (NumInt 2)
           (NumInt 25) (NumInt 1) of
      Inl err \<Rightarrow> False | Inr db4 \<Rightarrow> meal_records db4 = meal_records example_db)"
proof -
  obtain db1 db2 db3 db4 where ok:
    "add_meal_record ''2024-01-20 20:00:00'' example_db ''2024-01-20'' ''dinner'' ''Bread''
       (NumFloat 50) (NumInt 130) (NumInt 4) (NumInt 2) (NumInt 25) (NumInt 1) = Inr db1"
    "update_meal_record example_db 2 ''2024-01-20'' ''dinner'' ''Bread''
       (NumFloat 50) (NumInt 130) (NumInt 4) (NumInt 2) (NumInt 25) (NumInt 1) = Inr db2"
    "delete_meal_record example_db 2 = Inr db3"
    "add_food_to_master example_db ''Bread'' (NumInt 130) (NumInt 4) (NumInt 2)
       (NumInt 25) (NumInt 1) = Inr db4"
    by (simp add: add_meal_record_def update_meal_record_def delete_meal_record_def
        add_food_to_master_def example_defs insert_row_def next_rowid_def int64_def)
  from tables_disjoint [of "''2024-01-20 20:00:00''" example_db "''2024-01-20''" "''dinner''"
      "''Bread''" "NumFloat 50" "NumInt 130" "NumInt 4" "NumInt 2" "NumInt 25" "NumInt 1" db1 2 db2
      db3 "''Bread''" db4] ok
  show ?thesis by simp
qed

subsection \<open>Row ids\<close>

text \<open>
  The statements keep the rowids of a table unique, so "the record with that id" is at
  most one row.
\<close>

lemma fold_max_ge: "(a::int) \<le> fold max xs a \<and> (\<forall>x \<in> set xs. x \<le> fold max xs a)"
proof (induction xs arbitrary: a)
  case Nil
  show ?case by simp
next
  case (Cons y ys)
  have "max y a \<le> fold max ys (max y a)" "\<forall>x \<in> set ys. x \<le> fold max ys (max y a)"
    using Cons.IH [of "max y a"] by auto
  then show ?case by auto
qed

lemma next_rowid_fresh:
  "seq t < next_rowid rid t" "r \<in> set (rows t) \<Longrightarrow> rid r < next_rowid rid t"
  using fold_max_ge [of "seq t" "map rid (rows t)"] by (auto simp: next_rowid_def)

lemma insert_row_ok:
  assumes "table_ok rid t" "\<And>i. rid (mk i) = i" "insert_row rid mk t = Inr t'"
  shows "table_ok rid t'"
proof -
  have "next_rowid rid t \<notin> rid ` set (rows t)"
    using next_rowid_fresh(2) [of _ t rid] by force
  moreover have "\<forall>r \<in> set (rows t). rid r \<le> next_rowid rid t"
    using next_rowid_fresh(2) [of _ t rid] by force
  ultimately show ?thesis
    using assms by (auto simp: table_ok_def insert_row_def Let_def split: if_splits)
qed

lemma delete_where_ok: "table_ok rid t \<Longrightarrow> table_ok rid (delete_where p t)"
  by (auto simp: table_ok_def delete_where_def distinct_map_filter)

lemma update_where_ok:
  assumes "table_ok rid t" "\<And>r. rid (f r) = rid r"
  shows "table_ok rid (update_where p f t)"
proof -
  have "rid \<circ> (\<lambda>r. if p r then f r else r) = rid"
    using assms(2) by (auto simp: fun_eq_iff)
  then have "distinct (map rid (map (\<lambda>r. if p r then f r else r) (rows t)))"
    using assms(1) by (simp add: table_ok_def)
  moreover have "\<forall>r \<in> set (map (\<lambda>r. if p r then f r else r) (rows t)). rid r \<le> seq t"
    using assms by (auto simp: table_ok_def)
  ultimately show ?thesis
    by (simp add: table_ok_def update_where_def del: map_map set_map)
qed

lemma example_db_built:
  "\<exists>db1 db2 db3 db4.
     add_food_to_master (init_db no_tables) ''Rice'' (NumInt 168) (NumInt 3) (NumInt 1) (NumInt 37) (NumInt 2) = Inr db1
   \<and> add_meal_record ''2024-01-01 08:00:00'' db1 ''2024-01-01'' ''lunch'' ''Rice'' (NumFloat 100) (NumFloat 252) (NumInt 3) (NumInt 1) (NumInt 37) (NumInt 2) = Inr db2
   \<and> add_meal_record ''2024-01-05 12:30:00'' db2 ''2024-01-05'' ''lunch'' ''Rice'' (NumFloat 100) (NumFloat 168) (NumInt 3) (NumInt 1) (NumInt 37) (NumInt 2) = Inr db3
   \<and> add_meal_record ''2024-01-10 19:00:00'' db3 ''2024-01-10'' ''lunch'' ''Rice'' (NumFloat 100) (NumFloat 84) (NumInt 3) (NumInt 1) (NumInt 37) (NumInt 2) = Inr db4
   \<and> add_meal_record ''2024-01-11 09:15:00'' db4 ''2024-01-05'' ''lunch'' ''Rice'' (NumFloat 100) (NumFloat 100) (NumInt 3) (NumInt 1) (NumInt 37) (NumInt 2) = Inr example_db"
  by (simp add: init_db_def no_tables_def create_table_if_not_exists_def empty_table_def
      add_food_to_master_def add_meal_record_def insert_row_def next_rowid_def int64_def
      example_defs)

section \<open>Properties of the scaling\<close>

lemma calc_rice:
  "calc_nutrients rice_dict 150 =
     Some \<lparr>calc_calories = 252, calc_protein = 15 / 4,
           calc_fat = 2026619832316723 / 4503599627370496,
           calc_carbs = 1958010306743501 / 35184372088832,
           calc_fiber = 2026619832316723 / 4503599627370496\<rparr>"
  by (simp add: calc_nutrients_def rice_dict_def dict_float_def ratio_150 mul_calories mul_protein
      mul_fat mul_carbs)

lemma binary64_5_2: "to_binary64 (5 / 2) = Some (5 / 2)"
  by (rule to_binary64_exact [of "5 / 2" 1 5629499534213120]) (simp_all add: power_int_minus)

lemma binary64_float_37_1: "to_binary64 float_37_1 = Some float_37_1"
  by (rule to_binary64_exact [of float_37_1 5 5221360817982669])
    (simp_all add: power_int_minus float_37_1_def)

lemma rice_dict_listed:
  "(case add_food_to_master (init_db no_tables) ''Rice'' (NumInt 168) (NumFloat (5 / 2))
          (NumFloat float_0_3) (NumFloat float_37_1) (NumFloat float_0_3) of
      Inl err \<Rightarrow> False
    | Inr db \<Rightarrow> get_all_foods db = Inr [rice_dict])"
  using bind_real_float [OF binary64_5_2] bind_real_float [OF binary64_float_0_3]
    bind_real_float [OF binary64_float_37_1]
  by (simp add: add_food_to_master_def init_db_def no_tables_def create_table_if_not_exists_def
      empty_table_def insert_row_def next_rowid_def get_all_foods_def food_dict_def rice_dict_def
      int64_def)

text \<open>
  Claim C8, as the code has it. For the Rice entry and 150 g the scaling yields calories 252
  and protein 3.75 exactly. Fat and fiber come out as 0.44999999999999996, the float just
  below the float 0.45, and carbs as 55.650000000000006, the float just above the float
  55.65: each one unit in the last place away from what the decimal stands for.
\<close>

theorem scaling_rice_150:
  "calc_nutrients rice_dict 150 =
     Some \<lparr>calc_calories = 252, calc_protein = 15 / 4,
           calc_fat = 2026619832316723 / 4503599627370496,
           calc_carbs = 1958010306743501 / 35184372088832,
           calc_fiber = 2026619832316723 / 4503599627370496\<rparr>
   \<and> to_binary64 (45 / 100) = Some (2026619832316723 / 4503599627370496 + 1 / 2 ^ 54)
   \<and> to_binary64 (5565 / 100) = Some (1958010306743501 / 35184372088832 - 1 / 2 ^ 47)"
  using literal_0_45 literal_55_65 by (simp add: calc_rice)

text \<open>
  Claim C8 as it is worded. The values it names are not what the scaling computes, neither
  as exact decimals nor as the floats that the decimals 0.45 and 55.65 denote.
\<close>

theorem scaling_rice_150_not_exact:
  "calc_nutrients rice_dict 150 \<noteq>
     Some \<lparr>calc_calories = 252, calc_protein = 15 / 4, calc_fat = 45 / 100,
           calc_carbs = 5565 / 100, calc_fiber = 45 / 100\<rparr>
   \<and> map_option calc_fat (calc_nutrients rice_dict 150) \<noteq> to_binary64 (45 / 100)
   \<and> map_option calc_carbs (calc_nutrients rice_dict 150) \<noteq> to_binary64 (5565 / 100)
   \<and> map_option calc_fiber (calc_nutrients rice_dict 150) \<noteq> to_binary64 (45 / 100)"
  using literal_0_45 literal_55_65 by (simp add: calc_rice)

end
